theory Spec2Isabelle
  imports Complex_Main
begin

section \<open>Thermodynamics module: smooth step functions of thermodynamics.h\<close>

text \<open>
  The header defines two macros used to smooth the transitions in recfast:
  \<^verbatim>\<open>#define f1(x) (-0.75*x*(x*x/3.-1.)+0.5)\<close> (goes from 0 to 1 when x goes from -1 to 1) and
  \<^verbatim>\<open>#define f2(x) (x*x*(0.5-x/3.)*6.)\<close> (goes from 0 to 1 when x goes from 0 to 1).
  The C type \<^verbatim>\<open>double\<close> is read as \<^typ>\<open>real\<close>; the macro argument is a value
  (a variable or a parenthesised expression), and the operators associate as in C:
  \<^verbatim>\<open>-0.75*x*(...)\<close> is \<^verbatim>\<open>((-0.75)*x)*(...)\<close> and \<^verbatim>\<open>x*x*(...)*6.\<close> is
  \<^verbatim>\<open>((x*x)*(...))*6.\<close>.
\<close>

definition f1 :: "real \<Rightarrow> real" where
  "f1 x = (- 0.75 * x * (x * x / 3 - 1) + 0.5)"

definition f2 :: "real \<Rightarrow> real" where
  "f2 x = (x * x * (0.5 - x / 3) * 6)"

section \<open>Data model of thermodynamics.h\<close>

text \<open>
  The two enumerations and the part of \<^verbatim>\<open>struct thermo\<close> that holds the inputs and the
  interpolation tables read by the query interface. The
  \<^verbatim>\<open>index_th_*\<close> column numbers, the characteristic redshifts and the technical fields are
  not read by the functions below and are left out. C \<^verbatim>\<open>double\<close> is \<^typ>\<open>real\<close>; sizes and
  table indices, which the C code holds in \<^verbatim>\<open>int\<close>, are \<^typ>\<open>nat\<close>.
\<close>

datatype reionization_parametrization = reio_none | reio_camb

datatype reionization_z_or_tau = reio_z | reio_tau



section \<open>The query interface\<close>

text \<open>
  Modelled from the spec: the errors of section 7. The type \<^verbatim>\<open>ErrorMsg\<close> and the error
  macros of the C code are declared outside thermodynamics.h. A failed root search says
  whether the iteration ceiling was hit or the target could not be bracketed.
\<close>

datatype root_search_failure = iteration_ceiling_exceeded | target_not_bracketed

datatype error =
    ConfigurationError
  | IntegrationDivergence
  | RootSearchNonconvergence root_search_failure
  | MergeInconsistency
  | OutOfRangeQuery











section \<open>Auxiliary notions and sample inputs\<close>



section \<open>Properties of the smooth step functions\<close>

lemma f1_deriv: "(f1 has_real_derivative (0.75 - 0.75 * x * x)) (at x)"
  unfolding f1_def
  by (auto intro!: derivative_eq_intros simp: field_simps)

lemma f2_deriv: "(f2 has_real_derivative (6 * x - 6 * x * x)) (at x)"
  unfolding f2_def
  by (auto intro!: derivative_eq_intros simp: field_simps)

text \<open>
  Claim C9. Both macros are cubic smoothsteps: \<open>f1\<close> takes the value 0 at \<open>-1\<close> and 1 at
  \<open>1\<close>, \<open>f2\<close> takes the value 0 at \<open>0\<close> and 1 at \<open>1\<close>, and the derivative of each
  vanishes at both ends of its window.
\<close>

theorem smoothstep_boundaries:
  "f1 (- 1) = 0 \<and> f1 1 = 1
   \<and> (f1 has_real_derivative 0) (at (- 1)) \<and> (f1 has_real_derivative 0) (at 1)
   \<and> f2 0 = 0 \<and> f2 1 = 1
   \<and> (f2 has_real_derivative 0) (at 0) \<and> (f2 has_real_derivative 0) (at 1)"
proof -
  have v: "f1 (- 1) = 0" "f1 1 = 1" "f2 0 = 0" "f2 1 = 1"
    by (simp_all add: f1_def f2_def)
  have d1: "(f1 has_real_derivative 0) (at (- 1))" "(f1 has_real_derivative 0) (at 1)"
    using f1_deriv [of "- 1"] f1_deriv [of 1] by simp_all
  have d2: "(f2 has_real_derivative 0) (at 0)" "(f2 has_real_derivative 0) (at 1)"
    using f2_deriv [of 0] f2_deriv [of 1] by simp_all
  from v d1 d2 show ?thesis by blast
qed

text \<open>
  Claim C10. For every real \<open>x\<close>, \<open>f1 (2 x - 1) = f2 x = 3 x\<^sup>2 - 2 x\<^sup>3\<close>: the two
  macros are the same cubic smoothstep, up to the affine change of variable that maps
  \<open>[0, 1]\<close> onto \<open>[-1, 1]\<close>.
\<close>

theorem f1_affine_f2:
  "\<forall>x. f1 (2 * x - 1) = f2 x \<and> f2 x = 3 * x\<^sup>2 - 2 * x ^ 3"
  by (simp add: f1_def f2_def field_simps power2_eq_square power3_eq_cube)

section \<open>The three query modes find the same interval\<close>












end
